theory Spec2Isabelle
  imports Complex_Main "HOL-Library.Word"
begin

unbundle bit_operations_syntax

section \<open>Step dispatcher: design/decision_making/command_dispatcher.py\<close>

subsection \<open>Enumerations of design.decision_making.constants\<close>

text \<open>
  The module \<open>design.decision_making.constants\<close> is imported by the dispatcher but its
  text is not part of the sources at hand. \<open>Step\<close> lists the members the dispatcher names,
  taken as pairwise distinct members of the enumeration; \<open>OTHER_STEP\<close> stands for every
  member the dispatcher does not name. The two strategy enumerations have the two members
  the dispatcher assigns.
\<close>

datatype Step =
    STANBY
  | PREPARE_TRAVEL_TO_ANTENNA_ZONE
  | TERMINATE_SEQUENCE
  | COMPUTE_PAINTINGS_AREA
  | PREPARE_SEARCH_FOR_ANTENNA
  | SEARCH_FOR_ANTENNA
  | PREPARE_MOVING_TO_ANTENNA_POSITION
  | PREPARE_MARKING_ANTENNA_POSITION
  | ACQUIRE_INFORMATION_FROM_ANTENNA
  | PREPARE_TRAVEL_TO_DRAWING_ZONE
  | PREPARE_TO_DRAW
  | PREPARE_EXIT_OF_DRAWING_ZONE
  | PREPARE_CAPTURE_OF_PAINTING
  | CAPTURE_CORRECT_PAINTING
  | REPOSITION_FOR_CAPTURE_RETRY
  | PREPARE_MOVING_TO_OFFSET
  | PREPARE_ALIGN_WITH_CAPTURE
  | PREPARE_REALIGN_WITH_FIRST_VERTEX_DRAWN
  | ROTATE_BACK_AFTER_CAPTURE
  | ROTATE_TO_FACE_PAINTING
  | ROTATE_TO_STANDARD_HEADING
  | DRAWING
  | MARKING_ANTENNA_POSITION
  | TRAVEL_TO_DRAWING_ZONE
  | TRAVEL_TO_PAINTINGS_AREA
  | EXITING_DRAWING_ZONE
  | OTHER_STEP nat

datatype TranslationStrategyType = TRUST_MATERIAL_SERVOING | BASIC_WHEEL_SERVOING

datatype RotationStrategyType = TRUST_MATERIAL_SERVOING | BASIC_WHEEL_SERVOING

subsection \<open>Objects\<close>

text \<open>
  Python objects are held by reference: a reference is the index of the object in the heap,
  and two references denote the identical object exactly when they are equal. A Python value
  that may be \<open>None\<close> is a \<open>pyval\<close>. Instances of the command classes are plain objects;
  such an object is true in a condition, \<open>None\<close> is false.
\<close>

type_synonym ref = nat

datatype pyval = PyNone | Obj ref

fun truthy :: "pyval \<Rightarrow> bool" where
  "truthy PyNone = False"
| "truthy (Obj r) = True"

text \<open>
  The command classes of \<open>design.decision_making.preparation_commands\<close>, by name. A command
  object records its class and the step it was constructed for.
\<close>

datatype CommandClass =
    BuildGameMapCommand
  | FinishCycleCommand
  | TravelToPaintingsAreaCommand
  | PrepareSearchForAntennaPositionCommand
  | SearchForAntennaPositionCommand
  | PrepareMarkingAntennaCommand
  | PrepareTravelToDrawingAreaCommand
  | PrepareToDrawCommand
  | AcquireInformationFromAntennaCommand
  | PrepareExitOfDrawingAreaCommand
  | FaceRelevantFigureForCaptureCommand
  | CaptureFigureCommand
  | PrepareTravelToAntennaAreaCommand
  | PrepareMovingToAntennaPositionCommand
  | RepositionForCaptureRetryCommand
  | PrepareMovingOfAntennaOffsetCommand
  | PrepareAlignWithCaptureCommand
  | PrepareRealignWithFirstVertexDrawnCommand

record CommandObject =
  command_class :: CommandClass
  command_step :: Step

type_synonym heap = "CommandObject list"

text \<open>Calling a class constructs a new object at the next free reference.\<close>

definition construct :: "CommandObject list \<Rightarrow> heap \<Rightarrow> ref list \<times> heap" where
  "construct objs h = ([length h ..< length h + length objs], h @ objs)"

subsection \<open>The movement strategy\<close>

text \<open>
  The movement strategy is a collaborator whose class is not part of the sources at hand.
  The dispatcher writes its two mode fields and calls its two factory methods.

  Modelled from the spec: the factories \<open>get_rotation_command\<close> and
  \<open>get_translation_command\<close> (section 6: each takes the step, the controller, the
  pathfinder, the logger and the servo manager and returns a Command). They are parameters
  of the model: a factory maps the strategy object it is called on and its five arguments to
  the reference of the command it returns.
\<close>

record MovementStrategy =
  translation_strategy :: TranslationStrategyType
  rotation_strategy :: RotationStrategyType

type_synonym factory = "MovementStrategy \<Rightarrow> Step \<Rightarrow> ref \<Rightarrow> ref \<Rightarrow> ref \<Rightarrow> ref \<Rightarrow> ref"

subsection \<open>CommandDispatcher\<close>

record CommandDispatcher =
  movement_strategy :: MovementStrategy
  interfacing_controller :: ref
  pathfinder :: ref
  logger :: ref
  servo_wheels_manager :: ref
  steps_using_rotation :: "Step list"
  steps_using_translation_material_servo_management :: "Step list"
  steps_using_rotation_material_servo_management :: "Step list"
  equivalencies :: "Step \<rightharpoonup> ref"

text \<open>
  The dictionary literal of \<open>__init__\<close>, in the order it is written: each key with the
  class whose constructor is called for it, and the step passed to that constructor.
\<close>

definition static_commands :: "(Step \<times> CommandObject) list" where
  "static_commands =
    [(STANBY, \<lparr>command_class = BuildGameMapCommand, command_step = STANBY\<rparr>),
     (PREPARE_TRAVEL_TO_ANTENNA_ZONE,
        \<lparr>command_class = PrepareTravelToAntennaAreaCommand,
         command_step = PREPARE_TRAVEL_TO_ANTENNA_ZONE\<rparr>),
     (TERMINATE_SEQUENCE,
        \<lparr>command_class = FinishCycleCommand, command_step = TERMINATE_SEQUENCE\<rparr>),
     (COMPUTE_PAINTINGS_AREA,
        \<lparr>command_class = TravelToPaintingsAreaCommand, command_step = COMPUTE_PAINTINGS_AREA\<rparr>),
     (PREPARE_SEARCH_FOR_ANTENNA,
        \<lparr>command_class = PrepareSearchForAntennaPositionCommand,
         command_step = PREPARE_SEARCH_FOR_ANTENNA\<rparr>),
     (SEARCH_FOR_ANTENNA,
        \<lparr>command_class = SearchForAntennaPositionCommand, command_step = SEARCH_FOR_ANTENNA\<rparr>),
     (PREPARE_MOVING_TO_ANTENNA_POSITION,
        \<lparr>command_class = PrepareMovingToAntennaPositionCommand,
         command_step = PREPARE_MOVING_TO_ANTENNA_POSITION\<rparr>),
     (PREPARE_MARKING_ANTENNA_POSITION,
        \<lparr>command_class = PrepareMarkingAntennaCommand,
         command_step = PREPARE_MARKING_ANTENNA_POSITION\<rparr>),
     (ACQUIRE_INFORMATION_FROM_ANTENNA,
        \<lparr>command_class = AcquireInformationFromAntennaCommand,
         command_step = ACQUIRE_INFORMATION_FROM_ANTENNA\<rparr>),
     (PREPARE_TRAVEL_TO_DRAWING_ZONE,
        \<lparr>command_class = PrepareTravelToDrawingAreaCommand,
         command_step = PREPARE_TRAVEL_TO_DRAWING_ZONE\<rparr>),
     (PREPARE_TO_DRAW,
        \<lparr>command_class = PrepareToDrawCommand, command_step = PREPARE_TO_DRAW\<rparr>),
     (PREPARE_EXIT_OF_DRAWING_ZONE,
        \<lparr>command_class = PrepareExitOfDrawingAreaCommand,
         command_step = PREPARE_EXIT_OF_DRAWING_ZONE\<rparr>),
     (PREPARE_CAPTURE_OF_PAINTING,
        \<lparr>command_class = FaceRelevantFigureForCaptureCommand,
         command_step = PREPARE_CAPTURE_OF_PAINTING\<rparr>),
     (CAPTURE_CORRECT_PAINTING,
        \<lparr>command_class = CaptureFigureCommand, command_step = CAPTURE_CORRECT_PAINTING\<rparr>),
     (REPOSITION_FOR_CAPTURE_RETRY,
        \<lparr>command_class = RepositionForCaptureRetryCommand,
         command_step = REPOSITION_FOR_CAPTURE_RETRY\<rparr>),
     (PREPARE_MOVING_TO_OFFSET,
        \<lparr>command_class = PrepareMovingOfAntennaOffsetCommand,
         command_step = PREPARE_MOVING_TO_OFFSET\<rparr>),
     (PREPARE_ALIGN_WITH_CAPTURE,
        \<lparr>command_class = PrepareAlignWithCaptureCommand,
         command_step = PREPARE_ALIGN_WITH_CAPTURE\<rparr>),
     (PREPARE_REALIGN_WITH_FIRST_VERTEX_DRAWN,
        \<lparr>command_class = PrepareRealignWithFirstVertexDrawnCommand,
         command_step = PREPARE_REALIGN_WITH_FIRST_VERTEX_DRAWN\<rparr>)]"

text \<open>
  \<open>__init__\<close>: stores the collaborators, the three step lists and the dictionary, whose
  values are the eighteen commands constructed while the literal is evaluated. The
  arguments \<open>onboard_vision\<close>, \<open>antenna_information\<close> and \<open>capture_repositioning_manager\<close>
  are only handed on to command constructors. The last argument is the heap before the call.
\<close>

definition CommandDispatcher_init ::
  "MovementStrategy \<Rightarrow> ref \<Rightarrow> ref \<Rightarrow> ref \<Rightarrow> ref \<Rightarrow> ref \<Rightarrow> ref \<Rightarrow> ref \<Rightarrow> heap \<Rightarrow>
     CommandDispatcher \<times> heap" where
  "CommandDispatcher_init movement_strategies interfacing_controller' pathfinder' logger'
      onboard_vision antenna_information' servo_wheels_manager'
      capture_repositioning_manager h =
    (let (refs, h') = construct (map snd static_commands) h in
     (\<lparr>movement_strategy = movement_strategies,
       interfacing_controller = interfacing_controller',
       pathfinder = pathfinder',
       logger = logger',
       servo_wheels_manager = servo_wheels_manager',
       steps_using_rotation =
         [ROTATE_BACK_AFTER_CAPTURE, ROTATE_TO_FACE_PAINTING, ROTATE_TO_STANDARD_HEADING],
       steps_using_translation_material_servo_management =
         [DRAWING, MARKING_ANTENNA_POSITION, TRAVEL_TO_DRAWING_ZONE,
          TRAVEL_TO_PAINTINGS_AREA, SEARCH_FOR_ANTENNA, EXITING_DRAWING_ZONE],
       steps_using_rotation_material_servo_management =
         [ROTATE_TO_FACE_PAINTING, ROTATE_BACK_AFTER_CAPTURE],
       equivalencies = map_of (zip (map fst static_commands) refs)\<rparr>, h'))"

text \<open>
  \<open>get_relevant_command\<close>: the two mode assignments, then the dictionary lookup
  (\<open>dict.get\<close> gives \<open>None\<close> for a missing key), the test of its result, and the two
  delegations. The result is the returned value and the dispatcher after the call.
\<close>

definition get_relevant_command ::
  "factory \<Rightarrow> factory \<Rightarrow> CommandDispatcher \<Rightarrow> Step \<Rightarrow> pyval \<times> CommandDispatcher" where
  "get_relevant_command get_rotation_command get_translation_command self current_step =
    (let ms1 =
           (if current_step \<in> set (steps_using_translation_material_servo_management self)
            then (movement_strategy self)
                   \<lparr>translation_strategy := TranslationStrategyType.TRUST_MATERIAL_SERVOING\<rparr>
            else (movement_strategy self)
                   \<lparr>translation_strategy := TranslationStrategyType.BASIC_WHEEL_SERVOING\<rparr>);
         ms2 =
           (if current_step \<in> set (steps_using_rotation_material_servo_management self)
            then ms1\<lparr>rotation_strategy := RotationStrategyType.TRUST_MATERIAL_SERVOING\<rparr>
            else ms1\<lparr>rotation_strategy := RotationStrategyType.BASIC_WHEEL_SERVOING\<rparr>);
         self' = self\<lparr>movement_strategy := ms2\<rparr>;
         command = (case equivalencies self' current_step of None \<Rightarrow> PyNone | Some c \<Rightarrow> Obj c)
     in if truthy command then (command, self')
        else if current_step \<in> set (steps_using_rotation self')
        then (Obj (get_rotation_command ms2 current_step (interfacing_controller self')
                     (pathfinder self') (logger self') (servo_wheels_manager self')), self')
        else (Obj (get_translation_command ms2 current_step (interfacing_controller self')
                     (pathfinder self') (logger self') (servo_wheels_manager self')), self'))"

text \<open>A run of successive queries on one dispatcher, the returned commands dropped.\<close>

fun queries :: "factory \<Rightarrow> factory \<Rightarrow> CommandDispatcher \<Rightarrow> Step list \<Rightarrow> CommandDispatcher" where
  "queries rot tra d [] = d"
| "queries rot tra d (s # ss) = queries rot tra (snd (get_relevant_command rot tra d s)) ss"

section \<open>Hardware protocol driver: design/interfacing/stm32_driver.py\<close>

subsection \<open>Constants\<close>

text \<open>The classes \<open>Commands\<close>, \<open>Response\<close> and \<open>Constants\<close>.\<close>

definition TRANSLATE :: int where "TRANSLATE = 0x0000"
definition STOP :: int where "STOP = 0x0006"

definition STM_READY :: int where "STM_READY = 0x0008"
definition SIGNAL_STRENGTH :: int where "SIGNAL_STRENGTH = 0x0009"
definition SIGNAL_DATA :: int where "SIGNAL_DATA = 0x000A"

definition EMPTY_PARAM :: int where "EMPTY_PARAM = 0x0000"
definition MASK_FIGURE :: int where "MASK_FIGURE = 0x70"
definition MASK_ORIENTATION :: int where "MASK_ORIENTATION = 0x0C"
definition MASK_ZOOM :: int where "MASK_ZOOM = 0x02"

subsection \<open>Errors, bytes and the serial port\<close>

text \<open>
  Every exception a driver operation can raise is a value: a failed \<open>assert\<close> (with its
  message), \<open>struct.error\<close>, the serial library's error for a port that is not open,
  the \<open>IndexError\<close> of \<open>detect_serial()[0]\<close> on an empty list, and the exception an
  observer's \<open>notify\<close> raises.
\<close>

datatype error =
    AssertionError string
  | StructError
  | PortNotOpenError
  | IndexError
  | ObserverError

type_synonym byte = "8 word"

text \<open>
  The serial port is an object of the serial library. The model keeps what the driver
  uses of it: whether it is open, the bytes received and not yet read (\<open>in_waiting\<close> is
  their number), and every byte written so far. The library's \<open>write\<close> raises its
  port-not-open error on a port that is not open and writes nothing; \<open>read\<close> of \<open>n\<close> bytes
  when at least \<open>n\<close> are waiting returns the first \<open>n\<close>. Transmission failures of an
  open port are outside the model.
\<close>

record SerialPort =
  port_name :: string
  baudrate :: int
  timeout :: int
  is_open :: bool
  input_buffer :: "byte list"
  written :: "byte list"

definition in_waiting :: "SerialPort \<Rightarrow> int" where
  "in_waiting p = int (length (input_buffer p))"

definition port_read :: "nat \<Rightarrow> SerialPort \<Rightarrow> byte list \<times> SerialPort" where
  "port_read n p = (take n (input_buffer p), p\<lparr>input_buffer := drop n (input_buffer p)\<rparr>)"

definition port_write :: "byte list \<Rightarrow> SerialPort \<Rightarrow> error option \<times> SerialPort" where
  "port_write data p =
    (if is_open p then (None, p\<lparr>written := written p @ data\<rparr>)
     else (Some PortNotOpenError, p))"

definition port_close :: "SerialPort \<Rightarrow> SerialPort" where
  "port_close p = p\<lparr>is_open := False\<rparr>"

subsection \<open>struct.pack and struct.unpack\<close>

text \<open>
  Format \<open>H\<close> is an unsigned 16-bit field, \<open><\<close> is little-endian: low byte first.
  \<open>struct.pack\<close> raises \<open>struct.error\<close> for a value outside \<open>0..65535\<close>,
  \<open>struct.unpack\<close> for a buffer whose length is not that of the format.
\<close>

definition pack_H :: "int \<Rightarrow> byte list" where
  "pack_H v = [word_of_int (v mod 256), word_of_int (v div 256)]"

definition unpack_H :: "byte \<Rightarrow> byte \<Rightarrow> int" where
  "unpack_H lo hi = uint lo + 256 * uint hi"

definition struct_pack_HHHH :: "int \<Rightarrow> int \<Rightarrow> int \<Rightarrow> int \<Rightarrow> error + byte list" where
  "struct_pack_HHHH a b c d =
    (if list_all (\<lambda>v. 0 \<le> v \<and> v \<le> 65535) [a, b, c, d]
     then Inr (pack_H a @ pack_H b @ pack_H c @ pack_H d)
     else Inl StructError)"

definition struct_unpack_HHH :: "byte list \<Rightarrow> error + int list" where
  "struct_unpack_HHH buffer =
    (if length buffer = 6
     then Inr [unpack_H (buffer ! 0) (buffer ! 1),
               unpack_H (buffer ! 2) (buffer ! 3),
               unpack_H (buffer ! 4) (buffer ! 5)]
     else Inl StructError)"

subsection \<open>Stm32Driver\<close>

text \<open>
  \<open>AntennaInformation\<close> (module \<open>design.pathfinding.antenna_information\<close>): the three
  attributes the driver assigns on the object it has just constructed.
\<close>

record AntennaInformation =
  painting_number :: int
  zoom :: int
  orientation :: int

text \<open>
  An observer is an object of the caller's with a method \<open>notify\<close>; the driver knows
  nothing else of it. The model keeps its reference and whether its \<open>notify\<close> raises.
\<close>

record Observer =
  observer_ref :: ref
  notify_raises :: bool

text \<open>
  The thread that executes \<open>run\<close>: it is running the loop, or it has ended because
  \<open>run\<close> returned, or it has ended because an exception left \<open>run\<close>. In \<open>run\<close> only
  \<open>struct.error\<close> is caught, so any other exception raised in a pass of the loop ends
  the thread.
\<close>

datatype thread_state =
    ThreadRunning
  | ThreadFinished
  | ThreadDied error

text \<open>
  The driver object. \<open>signal_strength\<close> and \<open>antenna_information\<close> are \<open>None\<close> until a
  frame sets them. \<open>thread\<close> is the state of the thread object the attribute holds.
  \<open>notifications\<close> is not an attribute of the class but the record of the calls
  \<open>observer.notify(response_type)\<close> made so far, oldest first. Console output (\<open>print\<close>)
  is not modelled.
\<close>

record Stm32Driver =
  observers :: "Observer list"
  port :: SerialPort
  response_size :: int
  thread :: thread_state
  is_running :: bool
  is_ready :: bool
  signal_strength :: "int option"
  antenna_information :: "AntennaInformation option"
  notifications :: "(ref \<times> int) list"

text \<open>
  \<open>__init__\<close>, given the list \<open>detect_serial()\<close> returns: the first detected port is
  opened, the fields are set and the thread is started.
\<close>

definition Stm32Driver_init :: "string list \<Rightarrow> error + Stm32Driver" where
  "Stm32Driver_init detected =
    (case detected of
       [] \<Rightarrow> Inl IndexError
     | name # _ \<Rightarrow>
         Inr \<lparr>observers = [],
              port = \<lparr>port_name = name, baudrate = 19200, timeout = 1, is_open = True,
                      input_buffer = [], written = []\<rparr>,
              response_size = 6,
              thread = ThreadRunning,
              is_running = True,
              is_ready = False,
              signal_strength = None,
              antenna_information = None,
              notifications = []\<rparr>)"

text \<open>The serial line delivers bytes: they join the port's input buffer.\<close>

definition receive :: "byte list \<Rightarrow> Stm32Driver \<Rightarrow> Stm32Driver" where
  "receive data self =
    self\<lparr>port := (port self)\<lparr>input_buffer := input_buffer (port self) @ data\<rparr>\<rparr>"

definition register_hardware_observer :: "Observer \<Rightarrow> Stm32Driver \<Rightarrow> Stm32Driver" where
  "register_hardware_observer observer self = self\<lparr>observers := observers self @ [observer]\<rparr>"

text \<open>
  \<open>notify_all_observers\<close>: the observers are notified in the order of their registration.
  An exception raised by a \<open>notify\<close> is not caught: it ends the loop over the observers,
  those registered later are not notified, and it leaves \<open>notify_all_observers\<close>. The
  result is that exception (\<open>None\<close> when every call returned) and the driver afterwards.
\<close>

fun notify_each ::
  "Observer list \<Rightarrow> int \<Rightarrow> (ref \<times> int) list \<Rightarrow> error option \<times> (ref \<times> int) list" where
  "notify_each [] response_type calls = (None, calls)"
| "notify_each (observer # rest) response_type calls =
     (if notify_raises observer
      then (Some ObserverError, calls @ [(observer_ref observer, response_type)])
      else notify_each rest response_type (calls @ [(observer_ref observer, response_type)]))"

definition notify_all_observers :: "int \<Rightarrow> Stm32Driver \<Rightarrow> error option \<times> Stm32Driver" where
  "notify_all_observers response_type self =
    (case notify_each (observers self) response_type (notifications self) of
       (r, calls) \<Rightarrow> (r, self\<lparr>notifications := calls\<rparr>))"

text \<open>
  \<open>send_command\<close>: checksum, \<open>struct.pack\<close>, \<open>port.write\<close>. An operation returns the
  exception it raised (\<open>None\<close> when it returned normally) and the driver afterwards.
\<close>

definition send_command :: "int \<Rightarrow> int \<Rightarrow> int \<Rightarrow> Stm32Driver \<Rightarrow> error option \<times> Stm32Driver" where
  "send_command command param1 param2 self =
    (let checksum = (65536 - command - param1 - param2) mod 65536 in
     case struct_pack_HHHH command param1 param2 checksum of
       Inl e \<Rightarrow> (Some e, self)
     | Inr packet \<Rightarrow>
         (case port_write packet (port self) of
            (r, p) \<Rightarrow> (r, self\<lparr>port := p\<rparr>)))"

definition translate_robot :: "int \<Rightarrow> int \<Rightarrow> Stm32Driver \<Rightarrow> error option \<times> Stm32Driver" where
  "translate_robot dx dy self =
    (if \<not> (-32768 \<le> dx \<and> dx \<le> 32767)
     then (Some (AssertionError ''The horizontal distance should be a 16 bits signed int.''), self)
     else if \<not> (-32768 \<le> dy \<and> dy \<le> 32767)
     then (Some (AssertionError ''The vertical distance should be a 16 bits signed int.''), self)
     else send_command TRANSLATE (dx + 32768) (dy + 32768) self)"





definition stop_robot :: "Stm32Driver \<Rightarrow> error option \<times> Stm32Driver" where
  "stop_robot self = send_command STOP EMPTY_PARAM EMPTY_PARAM self"






definition validate_checksum :: "int list \<Rightarrow> bool" where
  "validate_checksum data_list =
    (let checksum = sum_list data_list mod 65536 in
     if checksum = 0 then True else False)"

text \<open>
  The body of the loop of \<open>run\<close>: one test of \<open>in_waiting\<close> and, when a frame is there,
  the read, the unpacking (whose \<open>struct.error\<close> is caught), the checksum test and the
  branch on the opcode. In \<open>data_list[1] & Constants.MASK_ZOOM + 2\<close> the addition binds
  tighter than \<open>&\<close>. The result is the exception that left the pass (\<open>None\<close> when it
  ended normally) and the driver afterwards; the fields are assigned before the observers
  are notified. \<open>in_waiting\<close> and \<open>read\<close> on the open port are taken to succeed.
\<close>

definition run_iteration :: "Stm32Driver \<Rightarrow> error option \<times> Stm32Driver" where
  "run_iteration self =
    (if in_waiting (port self) \<ge> response_size self then
       (case port_read (nat (response_size self)) (port self) of
          (data_array, p) \<Rightarrow>
            (let self = self\<lparr>port := p\<rparr> in
             case struct_unpack_HHH data_array of
               Inl e \<Rightarrow> (None, self)
             | Inr data_list \<Rightarrow>
                 if validate_checksum data_list then
                   if data_list ! 0 = STM_READY then
                     (None, self\<lparr>is_ready := True\<rparr>)
                   else if data_list ! 0 = SIGNAL_STRENGTH then
                     notify_all_observers SIGNAL_STRENGTH
                       (self\<lparr>signal_strength := Some (data_list ! 1)\<rparr>)
                   else if data_list ! 0 = SIGNAL_DATA then
                     (let painting_number' = (data_list ! 1) AND MASK_FIGURE;
                          zoom' = (data_list ! 1) AND (MASK_ZOOM + 2);
                          orientation' =
                            (360 - ((data_list ! 1) AND MASK_ORIENTATION) * 90) mod 360
                      in notify_all_observers SIGNAL_DATA
                           (self\<lparr>antenna_information :=
                                   Some \<lparr>painting_number = painting_number',
                                         zoom = zoom',
                                         orientation = orientation'\<rparr>\<rparr>))
                   else (None, self)
                 else (None, self)))
     else (None, self))"

text \<open>
  \<open>run\<close>, from a test of the loop condition to the end of the thread. While
  \<open>is_running\<close> holds a pass is made; an exception that leaves the pass leaves \<open>run\<close>
  and ends the thread, and \<open>port.close()\<close>, the statement after the loop, is not reached.
  When \<open>is_running\<close> does not hold the loop ends, the port is closed and \<open>run\<close>
  returns. A loop that never ends has no result.
\<close>

partial_function (option) run :: "Stm32Driver \<Rightarrow> Stm32Driver option" where
  "run self =
    (if is_running self then
       (if fst (run_iteration self) = None
        then run (snd (run_iteration self))
        else Some ((snd (run_iteration self))
                     \<lparr>thread := ThreadDied (the (fst (run_iteration self)))\<rparr>))
     else Some (self\<lparr>port := port_close (port self), thread := ThreadFinished\<rparr>))"

declare run.simps [code]

text \<open>
  \<open>close\<close>: clears the flag and joins the thread. The flag is read only by the test of
  the loop condition, so the argument is the driver as it is when the thread next makes
  that test (after the pass that was under way, if there was one), or as the thread left
  it when it has ended already. Joining a running thread waits for the rest of \<open>run\<close>;
  joining a thread that has ended returns at once, and then nothing closes the port.
\<close>

definition close :: "Stm32Driver \<Rightarrow> Stm32Driver option" where
  "close self =
    (let self = self\<lparr>is_running := False\<rparr> in
     if thread self = ThreadRunning then run self else Some self)"

subsection \<open>Concrete instances\<close>

text \<open>
  A strategy, two factories that return fixed references, the dispatcher created from them on
  an empty heap, a driver on a detected port with one registered observer, and a driver
  whose only observer raises, with a SIGNAL_STRENGTH frame waiting on its port.
\<close>

definition example_strategy :: MovementStrategy where
  "example_strategy =
    \<lparr>translation_strategy = TranslationStrategyType.BASIC_WHEEL_SERVOING,
     rotation_strategy = RotationStrategyType.BASIC_WHEEL_SERVOING\<rparr>"

definition example_rotation_factory :: factory where
  "example_rotation_factory self step controller pathfinder' logger' servo = 100"

definition example_translation_factory :: factory where
  "example_translation_factory self step controller pathfinder' logger' servo = 200"

definition example_dispatcher :: CommandDispatcher where
  "example_dispatcher = fst (CommandDispatcher_init example_strategy 90 91 92 93 94 95 96 [])"

definition example_driver :: Stm32Driver where
  "example_driver =
    register_hardware_observer \<lparr>observer_ref = 7, notify_raises = False\<rparr>
      (projr (Stm32Driver_init [''/dev/ttyACM0'']))"


section \<open>Properties of the step dispatcher\<close>

lemmas example_dispatcher_defs = example_dispatcher_def example_strategy_def
  example_rotation_factory_def example_translation_factory_def CommandDispatcher_init_def
  construct_def static_commands_def

text \<open>A query writes the strategy's modes and nothing else of the dispatcher.\<close>

lemma get_relevant_command_fields:
  "interfacing_controller (snd (get_relevant_command rot tra d s)) = interfacing_controller d"
  "pathfinder (snd (get_relevant_command rot tra d s)) = pathfinder d"
  "logger (snd (get_relevant_command rot tra d s)) = logger d"
  "servo_wheels_manager (snd (get_relevant_command rot tra d s)) = servo_wheels_manager d"
  "steps_using_rotation (snd (get_relevant_command rot tra d s)) = steps_using_rotation d"
  "steps_using_translation_material_servo_management (snd (get_relevant_command rot tra d s))
     = steps_using_translation_material_servo_management d"
  "steps_using_rotation_material_servo_management (snd (get_relevant_command rot tra d s))
     = steps_using_rotation_material_servo_management d"
  "equivalencies (snd (get_relevant_command rot tra d s)) = equivalencies d"
  by (simp_all add: get_relevant_command_def Let_def)

lemma queries_fields:
  "steps_using_rotation (queries rot tra d ss) = steps_using_rotation d"
  "steps_using_translation_material_servo_management (queries rot tra d ss)
     = steps_using_translation_material_servo_management d"
  "steps_using_rotation_material_servo_management (queries rot tra d ss)
     = steps_using_rotation_material_servo_management d"
  "equivalencies (queries rot tra d ss) = equivalencies d"
  by (induction ss arbitrary: d; simp add: get_relevant_command_fields)+

lemma get_relevant_command_modes:
  "translation_strategy (movement_strategy (snd (get_relevant_command rot tra d s))) =
     (if s \<in> set (steps_using_translation_material_servo_management d)
      then TranslationStrategyType.TRUST_MATERIAL_SERVOING
      else TranslationStrategyType.BASIC_WHEEL_SERVOING)"
  "rotation_strategy (movement_strategy (snd (get_relevant_command rot tra d s))) =
     (if s \<in> set (steps_using_rotation_material_servo_management d)
      then RotationStrategyType.TRUST_MATERIAL_SERVOING
      else RotationStrategyType.BASIC_WHEEL_SERVOING)"
  by (simp_all add: get_relevant_command_def Let_def)

lemma get_relevant_command_result:
  "fst (get_relevant_command rot tra d s) =
     (case equivalencies d s of
        Some c \<Rightarrow> Obj c
      | None \<Rightarrow>
          if s \<in> set (steps_using_rotation d)
          then Obj (rot (movement_strategy (snd (get_relevant_command rot tra d s))) s
                     (interfacing_controller d) (pathfinder d) (logger d) (servo_wheels_manager d))
          else Obj (tra (movement_strategy (snd (get_relevant_command rot tra d s))) s
                     (interfacing_controller d) (pathfinder d) (logger d) (servo_wheels_manager d)))"
  by (simp add: get_relevant_command_def Let_def split: option.split)

text \<open>What \<open>__init__\<close> stores.\<close>

lemma init_fields:
  "steps_using_rotation (fst (CommandDispatcher_init ms ic pf lg ov ai sw crm h)) =
     [ROTATE_BACK_AFTER_CAPTURE, ROTATE_TO_FACE_PAINTING, ROTATE_TO_STANDARD_HEADING]"
  "steps_using_translation_material_servo_management
       (fst (CommandDispatcher_init ms ic pf lg ov ai sw crm h)) =
     [DRAWING, MARKING_ANTENNA_POSITION, TRAVEL_TO_DRAWING_ZONE,
      TRAVEL_TO_PAINTINGS_AREA, SEARCH_FOR_ANTENNA, EXITING_DRAWING_ZONE]"
  "steps_using_rotation_material_servo_management
       (fst (CommandDispatcher_init ms ic pf lg ov ai sw crm h)) =
     [ROTATE_TO_FACE_PAINTING, ROTATE_BACK_AFTER_CAPTURE]"
  by (simp_all add: CommandDispatcher_init_def construct_def)

lemma init_equivalencies:
  "equivalencies (fst (CommandDispatcher_init ms ic pf lg ov ai sw crm h)) =
     map_of (zip (map fst static_commands) [length h ..< length h + length static_commands])"
  "snd (CommandDispatcher_init ms ic pf lg ov ai sw crm h) = h @ map snd static_commands"
  by (simp_all add: CommandDispatcher_init_def construct_def)

lemma static_commands_steps:
  "length static_commands = 18"
  "distinct (map fst static_commands)"
  "\<forall>(k, ob) \<in> set static_commands. command_step ob = k"
  by (simp_all add: static_commands_def)

lemma map_of_zip_upt:
  assumes "map_of (zip ks [n ..< n + length ks]) s = Some c"
  shows "\<exists>i < length ks. ks ! i = s \<and> c = n + i"
proof -
  from assms have "(s, c) \<in> set (zip ks [n ..< n + length ks])"
    by (rule map_of_SomeD)
  then obtain i where "i < length ks" "ks ! i = s" "[n ..< n + length ks] ! i = c"
    by (auto simp: set_zip)
  then show ?thesis by auto
qed

text \<open>
  Every entry of the dictionary is a reference that was free before \<open>__init__\<close> and holds,
  after it, the command constructed for that key.
\<close>

lemma init_table_entry:
  assumes "equivalencies (fst (CommandDispatcher_init ms ic pf lg ov ai sw crm h)) s = Some c"
  shows "length h \<le> c \<and> c < length (snd (CommandDispatcher_init ms ic pf lg ov ai sw crm h)) \<and>
         command_step (snd (CommandDispatcher_init ms ic pf lg ov ai sw crm h) ! c) = s"
proof -
  from assms obtain i where i: "i < length static_commands" "map fst static_commands ! i = s"
      "c = length h + i"
    using map_of_zip_upt [of "map fst static_commands" "length h" s c]
    by (auto simp: init_equivalencies)
  have "static_commands ! i \<in> set static_commands" using i(1) by simp
  then have "command_step (snd (static_commands ! i)) = fst (static_commands ! i)"
    using static_commands_steps(3) by (auto simp: case_prod_beta)
  then show ?thesis using i
    by (simp add: init_equivalencies nth_append)
qed

text \<open>
  Claim C1. For every step, \<open>get_relevant_command\<close> returns a command and never \<open>None\<close>:
  the entry of the static table when the step is one of its keys; otherwise, when the step
  is in \<open>steps_using_rotation\<close>, what the strategy's rotation factory returns; otherwise
  what its translation factory returns. The factory is called on the strategy as the query
  has just set it, with the step and the dispatcher's four collaborators.
\<close>

theorem get_relevant_command_total:
  "fst (get_relevant_command rot tra d s) \<noteq> PyNone \<and>
   fst (get_relevant_command rot tra d s) =
     (case equivalencies d s of
        Some c \<Rightarrow> Obj c
      | None \<Rightarrow>
          if s \<in> set (steps_using_rotation d)
          then Obj (rot (movement_strategy (snd (get_relevant_command rot tra d s))) s
                     (interfacing_controller d) (pathfinder d) (logger d) (servo_wheels_manager d))
          else Obj (tra (movement_strategy (snd (get_relevant_command rot tra d s))) s
                     (interfacing_controller d) (pathfinder d) (logger d) (servo_wheels_manager d)))"
  by (simp add: get_relevant_command_result split: option.split)

text \<open>
  On the example dispatcher: a key of the table, a rotation step and a step that is neither.
\<close>

theorem get_relevant_command_total_witness:
  "fst (get_relevant_command example_rotation_factory example_translation_factory
          example_dispatcher SEARCH_FOR_ANTENNA) = Obj 5 \<and>
   fst (get_relevant_command example_rotation_factory example_translation_factory
          example_dispatcher ROTATE_TO_STANDARD_HEADING) = Obj 100 \<and>
   fst (get_relevant_command example_rotation_factory example_translation_factory
          example_dispatcher DRAWING) = Obj 200"
  using get_relevant_command_total [of example_rotation_factory example_translation_factory
        example_dispatcher SEARCH_FOR_ANTENNA]
    get_relevant_command_total [of example_rotation_factory example_translation_factory
        example_dispatcher ROTATE_TO_STANDARD_HEADING]
    get_relevant_command_total [of example_rotation_factory example_translation_factory
        example_dispatcher DRAWING]
  by (simp add: example_dispatcher_defs)

text \<open>
  Claim C3. On a dispatcher as \<open>__init__\<close> made it, after any number of earlier queries, a
  query for a step leaves the strategy's translation mode at trust-material-servoing when
  the step is one of \<open>DRAWING\<close>, \<open>MARKING_ANTENNA_POSITION\<close>, \<open>TRAVEL_TO_DRAWING_ZONE\<close>,
  \<open>TRAVEL_TO_PAINTINGS_AREA\<close>, \<open>SEARCH_FOR_ANTENNA\<close>, \<open>EXITING_DRAWING_ZONE\<close> and at
  basic-wheel-servoing otherwise; and, independently, the rotation mode at
  trust-material-servoing when the step is \<open>ROTATE_TO_FACE_PAINTING\<close> or
  \<open>ROTATE_BACK_AFTER_CAPTURE\<close> and at basic-wheel-servoing otherwise.
\<close>

theorem get_relevant_command_sets_modes:
  assumes "d = queries rot tra (fst (CommandDispatcher_init ms ic pf lg ov ai sw crm h)) ss"
  shows "translation_strategy (movement_strategy (snd (get_relevant_command rot tra d s))) =
     (if s \<in> {DRAWING, MARKING_ANTENNA_POSITION, TRAVEL_TO_DRAWING_ZONE,
               TRAVEL_TO_PAINTINGS_AREA, SEARCH_FOR_ANTENNA, EXITING_DRAWING_ZONE}
      then TranslationStrategyType.TRUST_MATERIAL_SERVOING
      else TranslationStrategyType.BASIC_WHEEL_SERVOING) \<and>
    rotation_strategy (movement_strategy (snd (get_relevant_command rot tra d s))) =
     (if s \<in> {ROTATE_TO_FACE_PAINTING, ROTATE_BACK_AFTER_CAPTURE}
      then RotationStrategyType.TRUST_MATERIAL_SERVOING
      else RotationStrategyType.BASIC_WHEEL_SERVOING)"
  unfolding assms
  by (simp add: get_relevant_command_modes queries_fields init_fields)

theorem get_relevant_command_sets_modes_witness:
  "translation_strategy (movement_strategy (snd (get_relevant_command
      example_rotation_factory example_translation_factory
      (queries example_rotation_factory example_translation_factory example_dispatcher
         [ROTATE_TO_FACE_PAINTING])
      SEARCH_FOR_ANTENNA))) = TranslationStrategyType.TRUST_MATERIAL_SERVOING \<and>
   rotation_strategy (movement_strategy (snd (get_relevant_command
      example_rotation_factory example_translation_factory
      (queries example_rotation_factory example_translation_factory example_dispatcher
         [ROTATE_TO_FACE_PAINTING])
      SEARCH_FOR_ANTENNA))) = RotationStrategyType.BASIC_WHEEL_SERVOING"
  using get_relevant_command_sets_modes
    [of "queries example_rotation_factory example_translation_factory example_dispatcher
           [ROTATE_TO_FACE_PAINTING]"
        example_rotation_factory example_translation_factory
        example_strategy 90 91 92 93 94 95 96 "[]" "[ROTATE_TO_FACE_PAINTING]"
        SEARCH_FOR_ANTENNA]
  by (simp add: example_dispatcher_def)

text \<open>
  Claim C4. For a dispatcher created by \<open>__init__\<close> and a step that is a key of its static
  table, there is one command object, constructed during \<open>__init__\<close> for that step (its
  reference was free before and is allocated after), that every query for the step
  returns, whatever queries were made on the dispatcher before: any two such calls return
  the identical object.
\<close>

theorem get_relevant_command_singleton:
  assumes "CommandDispatcher_init ms ic pf lg ov ai sw crm h = (d0, h')"
    and "s \<in> dom (equivalencies d0)"
  shows "\<exists>c. equivalencies d0 s = Some c \<and>
             length h \<le> c \<and> c < length h' \<and> command_step (h' ! c) = s \<and>
             (\<forall>ss. fst (get_relevant_command rot tra (queries rot tra d0 ss) s) = Obj c)"
proof -
  from assms(2) obtain c where c: "equivalencies d0 s = Some c" by auto
  have "fst (get_relevant_command rot tra (queries rot tra d0 ss) s) = Obj c" for ss
    by (simp add: get_relevant_command_result queries_fields c)
  moreover have "length h \<le> c \<and> c < length h' \<and> command_step (h' ! c) = s"
    using init_table_entry [of ms ic pf lg ov ai sw crm h s c] assms(1) c by simp
  ultimately show ?thesis using c by blast
qed

theorem get_relevant_command_singleton_witness:
  "CommandDispatcher_init example_strategy 90 91 92 93 94 95 96 [] =
     (example_dispatcher, map snd static_commands) \<and>
   SEARCH_FOR_ANTENNA \<in> dom (equivalencies example_dispatcher) \<and>
   equivalencies example_dispatcher SEARCH_FOR_ANTENNA = Some 5 \<and>
   command_step (map snd static_commands ! 5) = SEARCH_FOR_ANTENNA \<and>
   fst (get_relevant_command example_rotation_factory example_translation_factory
          (queries example_rotation_factory example_translation_factory example_dispatcher
             [DRAWING, SEARCH_FOR_ANTENNA, STANBY]) SEARCH_FOR_ANTENNA) = Obj 5"
proof -
  have i: "CommandDispatcher_init example_strategy 90 91 92 93 94 95 96 [] =
     (example_dispatcher, map snd static_commands)"
    by (simp add: example_dispatcher_def CommandDispatcher_init_def construct_def)
  have k: "equivalencies example_dispatcher SEARCH_FOR_ANTENNA = Some 5"
    by (simp add: example_dispatcher_defs)
  then have m: "SEARCH_FOR_ANTENNA \<in> dom (equivalencies example_dispatcher)" by blast
  from get_relevant_command_singleton
    [OF i m, of example_rotation_factory example_translation_factory]
  obtain c where c: "equivalencies example_dispatcher SEARCH_FOR_ANTENNA = Some c"
      "command_step (map snd static_commands ! c) = SEARCH_FOR_ANTENNA"
      "\<forall>ss. fst (get_relevant_command example_rotation_factory example_translation_factory
          (queries example_rotation_factory example_translation_factory example_dispatcher ss)
          SEARCH_FOR_ANTENNA) = Obj c"
    by blast
  from c(1) k have "c = 5" by simp
  with c(2) c(3) [rule_format, of "[DRAWING, SEARCH_FOR_ANTENNA, STANBY]"]
  have "command_step (map snd static_commands ! 5) = SEARCH_FOR_ANTENNA \<and>
        fst (get_relevant_command example_rotation_factory example_translation_factory
          (queries example_rotation_factory example_translation_factory example_dispatcher
             [DRAWING, SEARCH_FOR_ANTENNA, STANBY]) SEARCH_FOR_ANTENNA) = Obj 5"
    by blast
  with i k m show ?thesis by simp
qed

section \<open>Properties of the hardware protocol driver\<close>

lemmas example_driver_defs = example_driver_def Stm32Driver_init_def
  register_hardware_observer_def receive_def struct_unpack_HHH_def unpack_H_def

subsection \<open>Frames\<close>

lemma struct_unpack_HHH_length: "struct_unpack_HHH fr = Inr xs \<Longrightarrow> length fr = 6"
  by (simp add: struct_unpack_HHH_def split: if_splits)

text \<open>The fields \<open>struct.unpack\<close> returns are the values of 16-bit words.\<close>

lemma struct_unpack_HHH_fields:
  assumes "struct_unpack_HHH fr = Inr xs"
  shows "\<exists>(a :: 16 word) (b :: 16 word) (c :: 16 word). xs = [uint a, uint b, uint c]"
proof -
  have u: "\<exists>w :: 16 word. unpack_H lo hi = uint w" for lo hi
  proof -
    have "0 \<le> uint lo" "uint lo < 256" "0 \<le> uint hi" "uint hi < 256"
      using uint_bounded [of lo] uint_bounded [of hi] by simp_all
    then have "0 \<le> unpack_H lo hi \<and> unpack_H lo hi < 65536"
      by (simp add: unpack_H_def)
    then have "uint (word_of_int (unpack_H lo hi) :: 16 word) = unpack_H lo hi"
      by (simp add: uint_word_of_int take_bit_int_eq_self)
    then show ?thesis by metis
  qed
  from assms have "xs = [unpack_H (fr ! 0) (fr ! 1), unpack_H (fr ! 2) (fr ! 3),
      unpack_H (fr ! 4) (fr ! 5)]"
    by (auto simp: struct_unpack_HHH_def split: if_splits)
  moreover obtain a b c :: "16 word" where
      "unpack_H (fr ! 0) (fr ! 1) = uint a" "unpack_H (fr ! 2) (fr ! 3) = uint b"
      "unpack_H (fr ! 4) (fr ! 5) = uint c"
    using u by blast
  ultimately have "xs = [uint a, uint b, uint c]" by simp
  then show ?thesis by blast
qed

text \<open>Reading a packed field back gives the value that was packed.\<close>

lemma unpack_pack_H:
  assumes "0 \<le> v" "v \<le> 65535"
  shows "unpack_H (pack_H v ! 0) (pack_H v ! 1) = v"
proof -
  have "0 \<le> v div 256" "v div 256 < 256" using assms by auto
  then have "uint (word_of_int (v div 256) :: byte) = v div 256"
    by (simp add: uint_word_of_int take_bit_int_eq_self)
  moreover have "uint (word_of_int (v mod 256) :: byte) = v mod 256"
    by (simp add: uint_word_of_int take_bit_eq_mod)
  ultimately show ?thesis by (simp add: unpack_H_def pack_H_def)
qed

subsection \<open>The checksum\<close>

lemma validate_checksum_fields:
  "validate_checksum [a, b, c] \<longleftrightarrow> (a + b + c) mod 65536 = 0"
  by (simp add: validate_checksum_def Let_def ac_simps)

lemma uint_sum3: "uint (a + b + c :: 16 word) = (uint a + uint b + uint c) mod 65536"
  by (simp add: uint_word_ariths mod_simps)

lemma validate_checksum_word:
  "validate_checksum [uint a, uint b, uint c] \<longleftrightarrow> a + b + c = (0 :: 16 word)"
proof -
  have "a + b + c = 0 \<longleftrightarrow> uint (a + b + c) = 0"
    by (simp add: uint_0_iff)
  then show ?thesis
    unfolding validate_checksum_fields uint_sum3 by simp
qed

lemma flip_rejected:
  fixes a b c :: "16 word"
  assumes "a + b + c = 0" and "k < 16"
  shows "flip_bit k a + b + c \<noteq> 0"
proof
  assume "flip_bit k a + b + c = 0"
  with assms(1) have "flip_bit k a = a" by (simp add: add.assoc add_eq_0_iff2)
  then show False using assms(2) by (simp add: flip_bit_eq_idem_iff)
qed

text \<open>
  Claim C5. \<open>validate_checksum\<close> accepts the three 16-bit fields of an inbound frame exactly
  when they sum to 0 modulo 65536. So a frame whose third field is
  \<open>(65536 - opcode - param) mod 65536\<close> is accepted, and flipping one bit (any of the
  sixteen) of any one field of an accepted frame gives a frame that is rejected.
\<close>

theorem validate_checksum_accepts_iff:
  fixes opcode param chk :: "16 word"
  shows "(validate_checksum [uint opcode, uint param, uint chk] \<longleftrightarrow>
            (uint opcode + uint param + uint chk) mod 65536 = 0) \<and>
         validate_checksum
           [uint opcode, uint param, (65536 - uint opcode - uint param) mod 65536] \<and>
         (validate_checksum [uint opcode, uint param, uint chk] \<and> k < 16 \<longrightarrow>
            \<not> validate_checksum [uint (flip_bit k opcode), uint param, uint chk] \<and>
            \<not> validate_checksum [uint opcode, uint (flip_bit k param), uint chk] \<and>
            \<not> validate_checksum [uint opcode, uint param, uint (flip_bit k chk)])"
proof (intro conjI impI)
  show "validate_checksum [uint opcode, uint param, uint chk] \<longleftrightarrow>
            (uint opcode + uint param + uint chk) mod 65536 = 0"
    by (rule validate_checksum_fields)
  show "validate_checksum
           [uint opcode, uint param, (65536 - uint opcode - uint param) mod 65536]"
    unfolding validate_checksum_fields by (simp add: mod_simps)
next
  assume h: "validate_checksum [uint opcode, uint param, uint chk] \<and> k < 16"
  then have z: "opcode + param + chk = 0" and k: "k < 16"
    by (simp_all add: validate_checksum_word)
  show "\<not> validate_checksum [uint (flip_bit k opcode), uint param, uint chk]"
    unfolding validate_checksum_word using flip_rejected [OF z k] .
  have "param + opcode + chk = 0" using z by (simp add: ac_simps)
  from flip_rejected [OF this k]
  show "\<not> validate_checksum [uint opcode, uint (flip_bit k param), uint chk]"
    unfolding validate_checksum_word by (simp add: ac_simps)
  have "chk + opcode + param = 0" using z by (simp add: ac_simps)
  from flip_rejected [OF this k]
  show "\<not> validate_checksum [uint opcode, uint param, uint (flip_bit k chk)]"
    unfolding validate_checksum_word by (simp add: ac_simps)
qed

text \<open>The frame \<open>(STM_READY, 0, 0xFFF8)\<close> and bit 3 of each of its fields.\<close>

theorem validate_checksum_accepts_iff_witness:
  "validate_checksum [uint (8 :: 16 word), uint (0 :: 16 word), uint (0xFFF8 :: 16 word)] \<and>
   (3 :: nat) < 16 \<and>
   \<not> validate_checksum [uint (flip_bit 3 (8 :: 16 word)), uint (0 :: 16 word),
        uint (0xFFF8 :: 16 word)] \<and>
   \<not> validate_checksum [uint (8 :: 16 word), uint (flip_bit 3 (0 :: 16 word)),
        uint (0xFFF8 :: 16 word)] \<and>
   \<not> validate_checksum [uint (8 :: 16 word), uint (0 :: 16 word),
        uint (flip_bit 3 (0xFFF8 :: 16 word))]"
proof -
  have h: "validate_checksum [uint (8 :: 16 word), uint (0 :: 16 word), uint (0xFFF8 :: 16 word)]"
    by (simp add: validate_checksum_def)
  with validate_checksum_accepts_iff [of 8 0 "0xFFF8" 3] show ?thesis by simp
qed

subsection \<open>The receive loop\<close>

text \<open>Notifying changes nothing of the driver but the record of the calls made.\<close>

lemma notify_all_observers_fields:
  "port (snd (notify_all_observers t s)) = port s"
  "thread (snd (notify_all_observers t s)) = thread s"
  "is_running (snd (notify_all_observers t s)) = is_running s"
  "is_ready (snd (notify_all_observers t s)) = is_ready s"
  "signal_strength (snd (notify_all_observers t s)) = signal_strength s"
  "antenna_information (snd (notify_all_observers t s)) = antenna_information s"
  by (simp_all add: notify_all_observers_def split: prod.split)

text \<open>
  One pass of the loop on a port that holds a whole frame: the frame is taken from the
  buffer and the branch is chosen by the checksum and the opcode.
\<close>

lemma run_iteration_frame:
  assumes "response_size d = 6"
    and "input_buffer (port d) = fr @ rest"
    and "struct_unpack_HHH fr = Inr [opcode, param, chk]"
  shows "run_iteration d =
    (let self = d\<lparr>port := (port d)\<lparr>input_buffer := rest\<rparr>\<rparr> in
     if validate_checksum [opcode, param, chk] then
       if opcode = STM_READY then (None, self\<lparr>is_ready := True\<rparr>)
       else if opcode = SIGNAL_STRENGTH then
         notify_all_observers SIGNAL_STRENGTH (self\<lparr>signal_strength := Some param\<rparr>)
       else if opcode = SIGNAL_DATA then
         notify_all_observers SIGNAL_DATA
           (self\<lparr>antenna_information :=
                   Some \<lparr>painting_number = param AND MASK_FIGURE,
                         zoom = param AND (MASK_ZOOM + 2),
                         orientation = (360 - (param AND MASK_ORIENTATION) * 90) mod 360\<rparr>\<rparr>)
       else (None, self)
     else (None, self))"
proof -
  have len: "length fr = 6" using assms(3) by (rule struct_unpack_HHH_length)
  then have rd: "port_read (nat (response_size d)) (port d) =
      (fr, (port d)\<lparr>input_buffer := rest\<rparr>)"
    by (simp add: port_read_def assms(1,2))
  have iw: "in_waiting (port d) \<ge> response_size d"
    using len by (simp add: in_waiting_def assms(1,2))
  show ?thesis
    unfolding run_iteration_def using iw
    by (simp add: rd assms(3) Let_def)
qed

text \<open>
  Claim C2. When the loop processes a 6-byte frame whose three fields do not sum to 0
  modulo 65536, or whose opcode is none of \<open>STM_READY\<close>, \<open>SIGNAL_STRENGTH\<close>,
  \<open>SIGNAL_DATA\<close>, the pass ends normally and only removes the frame from the port's
  buffer: \<open>is_ready\<close>, \<open>signal_strength\<close> and \<open>antenna_information\<close> keep their values,
  no observer is notified, \<open>is_running\<close> and the thread are as before and the loop goes on
  with its next pass.
\<close>

theorem run_iteration_discards_invalid_frame:
  assumes "response_size d = 6"
    and "input_buffer (port d) = fr @ rest"
    and "struct_unpack_HHH fr = Inr [opcode, param, chk]"
    and "(opcode + param + chk) mod 65536 \<noteq> 0 \<or>
         opcode \<notin> {STM_READY, SIGNAL_STRENGTH, SIGNAL_DATA}"
  shows "run_iteration d = (None, d\<lparr>port := (port d)\<lparr>input_buffer := rest\<rparr>\<rparr>) \<and>
         is_ready (snd (run_iteration d)) = is_ready d \<and>
         signal_strength (snd (run_iteration d)) = signal_strength d \<and>
         antenna_information (snd (run_iteration d)) = antenna_information d \<and>
         notifications (snd (run_iteration d)) = notifications d \<and>
         is_running (snd (run_iteration d)) = is_running d \<and>
         thread (snd (run_iteration d)) = thread d \<and>
         (is_running d \<longrightarrow> run d = run (snd (run_iteration d)))"
proof -
  from assms(4) consider
      (checksum) "\<not> validate_checksum [opcode, param, chk]"
    | (opcode) "opcode \<noteq> STM_READY" "opcode \<noteq> SIGNAL_STRENGTH" "opcode \<noteq> SIGNAL_DATA"
    by (auto simp: validate_checksum_fields simp del: mod_eq_0_iff_dvd)
  then have r: "run_iteration d = (None, d\<lparr>port := (port d)\<lparr>input_buffer := rest\<rparr>\<rparr>)"
  proof cases
    case checksum
    then show ?thesis by (simp add: run_iteration_frame [OF assms(1-3)] Let_def)
  next
    case opcode
    then show ?thesis by (simp add: run_iteration_frame [OF assms(1-3)] Let_def)
  qed
  have "run d = run (snd (run_iteration d))" if "is_running d"
    using that r by (subst run.simps) simp
  then show ?thesis using r by simp
qed

text \<open>
  Two frames followed by one more byte: the first has a wrong checksum, the second a right
  checksum and the opcode \<open>0x000B\<close>.
\<close>

theorem run_iteration_discards_invalid_frame_witness:
  "response_size (receive [8, 0, 0, 0, 0, 0, 1] example_driver) = 6 \<and>
   input_buffer (port (receive [8, 0, 0, 0, 0, 0, 1] example_driver)) =
     [8, 0, 0, 0, 0, 0] @ [1] \<and>
   struct_unpack_HHH [8, 0, 0, 0, 0, 0] = Inr [8, 0, 0] \<and>
   (8 + 0 + 0) mod 65536 \<noteq> (0::int) \<and>
   run_iteration (receive [8, 0, 0, 0, 0, 0, 1] example_driver) =
     (None, receive [1] example_driver) \<and>
   struct_unpack_HHH [0x0B, 0, 0, 0, 0xF5, 0xFF] = Inr [0x0B, 0, 0xFFF5] \<and>
   (0x0B::int) \<notin> {STM_READY, SIGNAL_STRENGTH, SIGNAL_DATA} \<and>
   run_iteration (receive [0x0B, 0, 0, 0, 0xF5, 0xFF, 1] example_driver) =
     (None, receive [1] example_driver)"
proof -
  let ?d = "receive [8, 0, 0, 0, 0, 0, 1] example_driver"
  let ?e = "receive [0x0B, 0, 0, 0, 0xF5, 0xFF, 1] example_driver"
  have h1: "response_size ?d = 6" "response_size ?e = 6"
    by (simp_all add: example_driver_defs)
  have h2: "input_buffer (port ?d) = [8, 0, 0, 0, 0, 0] @ [1]"
    "input_buffer (port ?e) = [0x0B, 0, 0, 0, 0xF5, 0xFF] @ [1]"
    by (simp_all add: example_driver_defs)
  have h3: "struct_unpack_HHH [8, 0, 0, 0, 0, 0] = Inr [8, 0, 0]"
    "struct_unpack_HHH [0x0B, 0, 0, 0, 0xF5, 0xFF] = Inr [0x0B, 0, 0xFFF5]"
    by (simp_all add: example_driver_defs)
  have h4: "(8 + 0 + 0) mod 65536 \<noteq> (0::int) \<or>
      (8::int) \<notin> {STM_READY, SIGNAL_STRENGTH, SIGNAL_DATA}"
    "(0x0B + 0 + 0xFFF5) mod 65536 \<noteq> (0::int) \<or>
      (0x0B::int) \<notin> {STM_READY, SIGNAL_STRENGTH, SIGNAL_DATA}"
    by (simp_all add: STM_READY_def SIGNAL_STRENGTH_def SIGNAL_DATA_def)
  have h5: "(8 + 0 + 0) mod 65536 \<noteq> (0::int)"
    "(0x0B::int) \<notin> {STM_READY, SIGNAL_STRENGTH, SIGNAL_DATA}"
    by (simp_all add: STM_READY_def SIGNAL_STRENGTH_def SIGNAL_DATA_def)
  from run_iteration_discards_invalid_frame [OF h1(1) h2(1) h3(1) h4(1)]
    run_iteration_discards_invalid_frame [OF h1(2) h2(2) h3(2) h4(2)] h1 h2 h3 h5
  show ?thesis by (simp add: example_driver_defs)
qed

subsection \<open>Decoding SIGNAL_DATA\<close>

text \<open>
  The AntennaInformation is stored before the observers are notified, so it is there
  whether or not a \<open>notify\<close> raises.
\<close>

lemma run_iteration_signal_data:
  assumes "response_size d = 6"
    and "input_buffer (port d) = fr @ rest"
    and "struct_unpack_HHH fr = Inr [SIGNAL_DATA, p, chk]"
    and "validate_checksum [SIGNAL_DATA, p, chk]"
  shows "antenna_information (snd (run_iteration d)) =
           Some \<lparr>painting_number = p AND MASK_FIGURE,
                 zoom = p AND (MASK_ZOOM + 2),
                 orientation = (360 - (p AND MASK_ORIENTATION) * 90) mod 360\<rparr>"
  using assms(4)
  by (simp add: run_iteration_frame [OF assms(1-3)] Let_def notify_all_observers_fields
      STM_READY_def SIGNAL_STRENGTH_def SIGNAL_DATA_def)

lemma and_exp_int: "(p::int) AND 2 ^ n = (if bit p n then 2 ^ n else 0)"
  by (rule bit_eqI) (auto simp: bit_and_iff bit_exp_iff)

lemma and_4_cases: "(p::int) AND 4 = (if bit p 2 then 4 else 0)"
  using and_exp_int [of p 2] by simp

text \<open>
  The orientation bits are multiplied by 90 where they stand, unshifted, so the product is
  a multiple of 360 and the stored orientation is 0 for every parameter.
\<close>

lemma and_12_cases: "(p::int) AND 12 \<in> {0, 4, 8, 12}"
proof -
  have a: "p AND 4 = (if bit p 2 then 4 else 0)" using and_exp_int [of p 2] by simp
  have b: "p AND 8 = (if bit p 3 then 8 else 0)" using and_exp_int [of p 3] by simp
  have "(12::int) = 4 OR 8" by simp
  then have "p AND 12 = (p AND 4) OR (p AND 8)"
    by (simp only: bit.conj_disj_distrib)
  then show ?thesis
    unfolding a b by simp
qed

lemma orientation_zero: "(360 - ((p::int) AND 12) * 90) mod 360 = 0"
  using and_12_cases [of p] by auto

text \<open>
  Claim C7. The claim reads: for every SIGNAL_DATA parameter \<open>p\<close> the stored zoom is
  \<open>(p AND 0x04) + 2\<close>. On the frame \<open>(SIGNAL_DATA, 0, 0xFFF6)\<close> the loop stores the zoom
  0, where the claim gives 2: the source's \<open>+ 2\<close> is added to the mask, not to the masked
  value.
\<close>

theorem zoom_offset_not_applied:
  "map_option zoom (antenna_information
      (snd (run_iteration (receive [0x0A, 0, 0, 0, 0xF6, 0xFF] example_driver)))) = Some 0 \<and>
   ((0::int) AND 0x04) + 2 = 2"
  by (simp add: example_driver_defs run_iteration_def in_waiting_def port_read_def
      validate_checksum_def notify_all_observers_def Let_def STM_READY_def
      SIGNAL_STRENGTH_def SIGNAL_DATA_def MASK_FIGURE_def MASK_ORIENTATION_def MASK_ZOOM_def)

text \<open>
  Claim C8. For a SIGNAL_DATA frame with a valid checksum and parameter \<open>p\<close>, the stored
  AntennaInformation has painting number \<open>p AND 0x70\<close> and orientation
  \<open>(360 - (p AND 0x0C) * 90) mod 360\<close>; for \<open>p = 0x76\<close> these are \<open>0x70\<close> and 0.
\<close>

theorem signal_data_painting_orientation:
  assumes "response_size d = 6"
    and "input_buffer (port d) = fr @ rest"
    and "struct_unpack_HHH fr = Inr [SIGNAL_DATA, p, chk]"
    and "validate_checksum [SIGNAL_DATA, p, chk]"
  shows "\<exists>ai. antenna_information (snd (run_iteration d)) = Some ai \<and>
           painting_number ai = p AND 0x70 \<and>
           orientation ai = (360 - (p AND 0x0C) * 90) mod 360 \<and>
           (p = 0x76 \<longrightarrow> painting_number ai = 0x70 \<and> orientation ai = 0)"
  by (simp add: run_iteration_signal_data [OF assms] MASK_FIGURE_def MASK_ORIENTATION_def)

theorem signal_data_painting_orientation_witness:
  "response_size (receive [0x0A, 0, 0x76, 0, 0x80, 0xFF] example_driver) = 6 \<and>
   input_buffer (port (receive [0x0A, 0, 0x76, 0, 0x80, 0xFF] example_driver)) =
     [0x0A, 0, 0x76, 0, 0x80, 0xFF] @ [] \<and>
   struct_unpack_HHH [0x0A, 0, 0x76, 0, 0x80, 0xFF] = Inr [SIGNAL_DATA, 0x76, 0xFF80] \<and>
   validate_checksum [SIGNAL_DATA, 0x76, 0xFF80] \<and>
   map_option painting_number (antenna_information
     (snd (run_iteration (receive [0x0A, 0, 0x76, 0, 0x80, 0xFF] example_driver)))) =
     Some 0x70 \<and>
   map_option orientation (antenna_information
     (snd (run_iteration (receive [0x0A, 0, 0x76, 0, 0x80, 0xFF] example_driver)))) = Some 0"
proof -
  let ?d = "receive [0x0A, 0, 0x76, 0, 0x80, 0xFF] example_driver"
  have h1: "response_size ?d = 6" by (simp add: example_driver_defs)
  have h2: "input_buffer (port ?d) = [0x0A, 0, 0x76, 0, 0x80, 0xFF] @ []"
    by (simp add: example_driver_defs)
  have h3: "struct_unpack_HHH [0x0A, 0, 0x76, 0, 0x80, 0xFF] = Inr [SIGNAL_DATA, 0x76, 0xFF80]"
    by (simp add: example_driver_defs SIGNAL_DATA_def)
  have h4: "validate_checksum [SIGNAL_DATA, 0x76, 0xFF80]"
    by (simp add: validate_checksum_def SIGNAL_DATA_def)
  from signal_data_painting_orientation [OF h1 h2 h3 h4] h1 h2 h3 h4 show ?thesis by auto
qed

text \<open>
  Claim C10. For a SIGNAL_DATA frame with a valid checksum and parameter \<open>p\<close>, the zoom the
  driver stores is \<open>p AND 0x04\<close>, with no offset added: it is 0 or 4, never 2 or 6.
\<close>

theorem signal_data_zoom_values:
  assumes "response_size d = 6"
    and "input_buffer (port d) = fr @ rest"
    and "struct_unpack_HHH fr = Inr [SIGNAL_DATA, p, chk]"
    and "validate_checksum [SIGNAL_DATA, p, chk]"
  shows "\<exists>ai. antenna_information (snd (run_iteration d)) = Some ai \<and>
           zoom ai = p AND 0x04 \<and> zoom ai \<in> {0, 4} \<and> zoom ai \<noteq> 2 \<and> zoom ai \<noteq> 6"
  by (simp add: run_iteration_signal_data [OF assms] MASK_ZOOM_def and_4_cases)

theorem signal_data_zoom_values_witness:
  "response_size (receive [0x0A, 0, 0x06, 0, 0xF0, 0xFF] example_driver) = 6 \<and>
   input_buffer (port (receive [0x0A, 0, 0x06, 0, 0xF0, 0xFF] example_driver)) =
     [0x0A, 0, 0x06, 0, 0xF0, 0xFF] @ [] \<and>
   struct_unpack_HHH [0x0A, 0, 0x06, 0, 0xF0, 0xFF] = Inr [SIGNAL_DATA, 0x06, 0xFFF0] \<and>
   validate_checksum [SIGNAL_DATA, 0x06, 0xFFF0] \<and>
   map_option zoom (antenna_information
     (snd (run_iteration (receive [0x0A, 0, 0x06, 0, 0xF0, 0xFF] example_driver)))) = Some 4"
proof -
  let ?d = "receive [0x0A, 0, 0x06, 0, 0xF0, 0xFF] example_driver"
  have h1: "response_size ?d = 6" by (simp add: example_driver_defs)
  have h2: "input_buffer (port ?d) = [0x0A, 0, 0x06, 0, 0xF0, 0xFF] @ []"
    by (simp add: example_driver_defs)
  have h3: "struct_unpack_HHH [0x0A, 0, 0x06, 0, 0xF0, 0xFF] = Inr [SIGNAL_DATA, 0x06, 0xFFF0]"
    by (simp add: example_driver_defs SIGNAL_DATA_def)
  have h4: "validate_checksum [SIGNAL_DATA, 0x06, 0xFFF0]"
    by (simp add: validate_checksum_def SIGNAL_DATA_def)
  from signal_data_zoom_values [OF h1 h2 h3 h4] h1 h2 h3 h4 show ?thesis by auto
qed

subsection \<open>Outbound commands\<close>

lemma send_command_open:
  assumes "is_open (port d)"
    and "0 \<le> command" "command \<le> 65535" "0 \<le> param1" "param1 \<le> 65535"
    and "0 \<le> param2" "param2 \<le> 65535"
  shows "send_command command param1 param2 d =
    (None, d\<lparr>port := (port d)\<lparr>written := written (port d) @ pack_H command @ pack_H param1 @
        pack_H param2 @ pack_H ((65536 - command - param1 - param2) mod 65536)\<rparr>\<rparr>)"
  using assms by (simp add: send_command_def struct_pack_HHHH_def port_write_def Let_def)


text \<open>
  Claim C6. \<open>translate_robot dx dy\<close> fails its validation (an assertion fails) exactly when
  \<open>dx\<close> or \<open>dy\<close> is outside \<open>[-32768, 32767]\<close>, and then the driver and its port are as
  before: nothing is written. With both in range and the port open the call succeeds and
  appends one 8-byte frame to what the port has written, whose fields read back as opcode
  \<open>TRANSLATE\<close>, \<open>dx + 32768\<close>, \<open>dy + 32768\<close> and the checksum. In particular
  \<open>translate_robot 32768 0\<close> and \<open>translate_robot (-32769) 0\<close> fail, and
  \<open>translate_robot 32767 (-32768)\<close> writes the fields 0, 65535, 0 and checksum 1.
\<close>

theorem translate_robot_validation:
  "((\<exists>m. fst (translate_robot dx dy d) = Some (AssertionError m)) \<longleftrightarrow>
      \<not> (-32768 \<le> dx \<and> dx \<le> 32767 \<and> -32768 \<le> dy \<and> dy \<le> 32767)) \<and>
   ((\<exists>m. fst (translate_robot dx dy d) = Some (AssertionError m)) \<longrightarrow>
      snd (translate_robot dx dy d) = d) \<and>
   (is_open (port d) \<and> -32768 \<le> dx \<and> dx \<le> 32767 \<and> -32768 \<le> dy \<and> dy \<le> 32767 \<longrightarrow>
      (\<exists>packet. translate_robot dx dy d =
           (None, d\<lparr>port := (port d)\<lparr>written := written (port d) @ packet\<rparr>\<rparr>) \<and>
         length packet = 8 \<and>
         unpack_H (packet ! 0) (packet ! 1) = TRANSLATE \<and>
         unpack_H (packet ! 2) (packet ! 3) = dx + 32768 \<and>
         unpack_H (packet ! 4) (packet ! 5) = dy + 32768 \<and>
         unpack_H (packet ! 6) (packet ! 7) =
           (65536 - TRANSLATE - (dx + 32768) - (dy + 32768)) mod 65536)) \<and>
   (\<exists>m. translate_robot 32768 0 d = (Some (AssertionError m), d)) \<and>
   (\<exists>m. translate_robot (-32769) 0 d = (Some (AssertionError m), d)) \<and>
   (is_open (port d) \<longrightarrow>
      translate_robot 32767 (-32768) d =
        (None, d\<lparr>port := (port d)\<lparr>written :=
                   written (port d) @ [0, 0, 0xFF, 0xFF, 0, 0, 1, 0]\<rparr>\<rparr>))"
proof (intro conjI impI)
  show "(\<exists>m. fst (translate_robot dx dy d) = Some (AssertionError m)) \<longleftrightarrow>
      \<not> (-32768 \<le> dx \<and> dx \<le> 32767 \<and> -32768 \<le> dy \<and> dy \<le> 32767)"
    by (auto simp: translate_robot_def send_command_def struct_pack_HHHH_def port_write_def
        Let_def TRANSLATE_def split: if_splits)
  show "snd (translate_robot dx dy d) = d"
    if "\<exists>m. fst (translate_robot dx dy d) = Some (AssertionError m)"
    using that
    by (auto simp: translate_robot_def send_command_def struct_pack_HHHH_def port_write_def
        Let_def TRANSLATE_def split: if_splits)
  show "\<exists>m. translate_robot 32768 0 d = (Some (AssertionError m), d)"
    by (simp add: translate_robot_def)
  show "\<exists>m. translate_robot (-32769) 0 d = (Some (AssertionError m), d)"
    by (simp add: translate_robot_def)
  show "translate_robot 32767 (-32768) d =
        (None, d\<lparr>port := (port d)\<lparr>written :=
                   written (port d) @ [0, 0, 0xFF, 0xFF, 0, 0, 1, 0]\<rparr>\<rparr>)"
    if "is_open (port d)"
    using that
    by (simp add: translate_robot_def send_command_open TRANSLATE_def pack_H_def)
next
  assume h: "is_open (port d) \<and> -32768 \<le> dx \<and> dx \<le> 32767 \<and> -32768 \<le> dy \<and> dy \<le> 32767"
  let ?c = "(65536 - TRANSLATE - (dx + 32768) - (dy + 32768)) mod 65536"
  let ?packet = "pack_H TRANSLATE @ pack_H (dx + 32768) @ pack_H (dy + 32768) @ pack_H ?c"
  have r: "0 \<le> dx + 32768" "dx + 32768 \<le> 65535" "0 \<le> dy + 32768" "dy + 32768 \<le> 65535"
    "0 \<le> ?c" "?c \<le> 65535" "0 \<le> TRANSLATE" "TRANSLATE \<le> 65535"
    using h by (simp_all add: TRANSLATE_def)
  have l: "length (pack_H v) = 2" for v by (simp add: pack_H_def)
  have "translate_robot dx dy d =
      (None, d\<lparr>port := (port d)\<lparr>written := written (port d) @ ?packet\<rparr>\<rparr>)"
    using h by (simp add: translate_robot_def send_command_open r)
  moreover have "length ?packet = 8" by (simp add: l)
  moreover have "unpack_H (?packet ! 0) (?packet ! 1) = TRANSLATE"
    using unpack_pack_H [OF r(7,8)] by (simp add: nth_append l)
  moreover have "unpack_H (?packet ! 2) (?packet ! 3) = dx + 32768"
    using unpack_pack_H [OF r(1,2)] by (simp add: nth_append l)
  moreover have "unpack_H (?packet ! 4) (?packet ! 5) = dy + 32768"
    using unpack_pack_H [OF r(3,4)] by (simp add: nth_append l)
  moreover have "unpack_H (?packet ! 6) (?packet ! 7) = ?c"
    using unpack_pack_H [OF r(5,6)] by (simp add: nth_append l)
  ultimately show "\<exists>packet. translate_robot dx dy d =
           (None, d\<lparr>port := (port d)\<lparr>written := written (port d) @ packet\<rparr>\<rparr>) \<and>
         length packet = 8 \<and>
         unpack_H (packet ! 0) (packet ! 1) = TRANSLATE \<and>
         unpack_H (packet ! 2) (packet ! 3) = dx + 32768 \<and>
         unpack_H (packet ! 4) (packet ! 5) = dy + 32768 \<and>
         unpack_H (packet ! 6) (packet ! 7) =
           (65536 - TRANSLATE - (dx + 32768) - (dy + 32768)) mod 65536"
    by blast
qed

theorem translate_robot_validation_witness:
  "is_open (port example_driver) \<and>
   translate_robot 32767 (-32768) example_driver =
     (None, example_driver\<lparr>port := (port example_driver)\<lparr>written :=
              [0, 0, 0xFF, 0xFF, 0, 0, 1, 0]\<rparr>\<rparr>) \<and>
   (\<exists>m. translate_robot 32768 0 example_driver = (Some (AssertionError m), example_driver))"
proof -
  have h: "is_open (port example_driver)" by (simp add: example_driver_defs)
  have w: "written (port example_driver) = []" by (simp add: example_driver_defs)
  from translate_robot_validation [of 32767 "-32768" example_driver] h w
  show ?thesis by simp
qed

subsection \<open>After close\<close>


lemma close_ended:
  assumes "thread d \<noteq> ThreadRunning"
  shows "close d = Some (d\<lparr>is_running := False\<rparr>)"
  using assms by (simp add: close_def Let_def)


text \<open>
  After the thread has died with the port open, \<open>close\<close> returns with the port still open
  and a command is written to it.
\<close>

lemma dead_thread_port_stays_open:
  assumes "thread d = ThreadDied e" and "is_open (port d)"
  shows "\<exists>d'. close d = Some d' \<and> is_open (port d') \<and>
           stop_robot d' =
             (None, d'\<lparr>port := (port d')\<lparr>written :=
                       written (port d') @ [6, 0, 0, 0, 0, 0, 0xFA, 0xFF]\<rparr>\<rparr>)"
  using assms
  by (simp add: close_ended stop_robot_def send_command_open STOP_def EMPTY_PARAM_def
      pack_H_def)




end
